theory Spec2Isabelle
  imports Main
begin

section \<open>JavaScript numbers\<close>

text \<open>
  The calculator of \<^verbatim>\<open>src/components/Calculator.tsx\<close> keeps its operands as JavaScript
  numbers, that is IEEE 754 binary64 values, reads them from the display with
  \<^verbatim>\<open>parseFloat\<close> and writes them back with \<^verbatim>\<open>String\<close>. These are primitives of the
  language, not of the repository; they are modelled here after ECMA-262.

  A finite number \<open>Finite neg m e\<close> stands for \<open>(-1)^neg * m * 2^e\<close>, with the mantissa
  \<open>m\<close> a non-negative integer. Every operation below returns the mantissa odd (or \<open>m = 0\<close>,
  \<open>e = 0\<close> for a zero), so equal values have equal representations. Both zeros exist and
  differ in \<open>neg\<close> only.
\<close>

datatype number = NaN | Infinity bool | Finite bool int int

fun is_zero :: "number \<Rightarrow> bool" where
  "is_zero (Finite _ m _) = (m = 0)"
| "is_zero _ = False"

definition zero :: number where
  "zero = Finite False 0 0"

text \<open>\<open>bit_count n\<close> is the number of binary digits of \<open>n\<close>.\<close>

function bit_count :: "int \<Rightarrow> int" where
  "bit_count n = (if n \<le> 0 then 0 else 1 + bit_count (n div 2))"
  by pat_completeness auto
termination
  by (relation "measure nat") auto

declare bit_count.simps [simp del]

text \<open>Trailing zero bits of the mantissa move into the exponent.\<close>

function odd_mantissa :: "int \<Rightarrow> int \<Rightarrow> int \<times> int" where
  "odd_mantissa m e = (if 0 < m \<and> even m then odd_mantissa (m div 2) (e + 1) else (m, e))"
  by pat_completeness auto
termination
  by (relation "measure (\<lambda>(m, e). nat m)") auto

declare odd_mantissa.simps [simp del]

text \<open>\<open>nearest_even a b\<close> is the integer nearest to \<open>a / b\<close>, a tie going to the even one.\<close>

definition nearest_even :: "int \<Rightarrow> int \<Rightarrow> int" where
  "nearest_even a b =
     (let n = a div b; r = a mod b
      in if 2 * r < b then n
         else if b < 2 * r then n + 1
         else if even n then n else n + 1)"

text \<open>
  \<open>round_nearest neg p q\<close> is the binary64 value of the positive fraction \<open>p / q\<close> with sign
  \<open>neg\<close>, in the rounding mode of the language (to nearest, ties to even): 53 bits of
  mantissa, exponents of the lowest bit from \<open>-1074\<close> to \<open>971\<close>, anything from \<open>2^1024\<close> on
  becoming an infinity and anything rounding to no bit at all a zero.
  \<open>binary_exponent p q\<close> is the \<open>k\<close> with \<open>2^k \<le> p / q < 2^(k + 1)\<close>.
\<close>

definition binary_exponent :: "int \<Rightarrow> int \<Rightarrow> int" where
  "binary_exponent p q =
     (let d = bit_count p - bit_count q
      in if q * 2 ^ nat d \<le> p * 2 ^ nat (- d) then d else d - 1)"

definition lowest_bit :: "int \<Rightarrow> int \<Rightarrow> int" where
  "lowest_bit p q = max (binary_exponent p q - 52) (- 1074)"

definition pack :: "bool \<Rightarrow> int \<Rightarrow> int \<Rightarrow> number" where
  "pack neg m e =
     (if m = 0 then Finite neg 0 0
      else if 971 < e \<or> (e = 971 \<and> m = 2 ^ 53) then Infinity neg
      else Finite neg (fst (odd_mantissa m e)) (snd (odd_mantissa m e)))"

definition round_nearest :: "bool \<Rightarrow> int \<Rightarrow> int \<Rightarrow> number" where
  "round_nearest neg p q =
     pack neg
       (nearest_even (p * 2 ^ nat (- lowest_bit p q)) (q * 2 ^ nat (lowest_bit p q)))
       (lowest_bit p q)"

fun fneg :: "number \<Rightarrow> number" where
  "fneg NaN = NaN"
| "fneg (Infinity s) = Infinity (\<not> s)"
| "fneg (Finite s m e) = Finite (\<not> s) m e"

definition signed :: "bool \<Rightarrow> int \<Rightarrow> int" where
  "signed neg m = (if neg then - m else m)"

text \<open>\<open>round_dyadic n e\<close> is the binary64 value of the non-zero integer \<open>n\<close> times \<open>2^e\<close>.\<close>

definition round_dyadic :: "int \<Rightarrow> int \<Rightarrow> number" where
  "round_dyadic n e = round_nearest (n < 0) (\<bar>n\<bar> * 2 ^ nat e) (2 ^ nat (- e))"

definition exact_sum :: "bool \<Rightarrow> int \<Rightarrow> int \<Rightarrow> bool \<Rightarrow> int \<Rightarrow> int \<Rightarrow> int" where
  "exact_sum s1 m1 e1 s2 m2 e2 =
     signed s1 m1 * 2 ^ nat (e1 - min e1 e2) + signed s2 m2 * 2 ^ nat (e2 - min e1 e2)"

text \<open>
  The four operators \<^verbatim>\<open>+\<close>, \<^verbatim>\<open>-\<close>, \<^verbatim>\<open>*\<close> and \<^verbatim>\<open>/\<close> on numbers. A sum that is exactly
  zero is \<open>-0\<close> only when both operands are negative (two negative zeros).
\<close>

fun fadd :: "number \<Rightarrow> number \<Rightarrow> number" where
  "fadd NaN _ = NaN"
| "fadd _ NaN = NaN"
| "fadd (Infinity s) (Infinity t) = (if s = t then Infinity s else NaN)"
| "fadd (Infinity s) (Finite _ _ _) = Infinity s"
| "fadd (Finite _ _ _) (Infinity t) = Infinity t"
| "fadd (Finite s1 m1 e1) (Finite s2 m2 e2) =
     (if exact_sum s1 m1 e1 s2 m2 e2 = 0 then Finite (s1 \<and> s2) 0 0
      else round_dyadic (exact_sum s1 m1 e1 s2 m2 e2) (min e1 e2))"

definition fsub :: "number \<Rightarrow> number \<Rightarrow> number" where
  "fsub x y = fadd x (fneg y)"

fun fmul :: "number \<Rightarrow> number \<Rightarrow> number" where
  "fmul NaN _ = NaN"
| "fmul _ NaN = NaN"
| "fmul (Infinity s) (Infinity t) = Infinity (s \<noteq> t)"
| "fmul (Infinity s) (Finite t m e) = (if m = 0 then NaN else Infinity (s \<noteq> t))"
| "fmul (Finite s m e) (Infinity t) = (if m = 0 then NaN else Infinity (s \<noteq> t))"
| "fmul (Finite s1 m1 e1) (Finite s2 m2 e2) =
     (if m1 * m2 = 0 then Finite (s1 \<noteq> s2) 0 0
      else round_nearest (s1 \<noteq> s2) (m1 * m2 * 2 ^ nat (e1 + e2)) (2 ^ nat (- (e1 + e2))))"

fun fdiv :: "number \<Rightarrow> number \<Rightarrow> number" where
  "fdiv NaN _ = NaN"
| "fdiv _ NaN = NaN"
| "fdiv (Infinity s) (Infinity t) = NaN"
| "fdiv (Infinity s) (Finite t m e) = Infinity (s \<noteq> t)"
| "fdiv (Finite s m e) (Infinity t) = Finite (s \<noteq> t) 0 0"
| "fdiv (Finite s1 m1 e1) (Finite s2 m2 e2) =
     (if m2 = 0 then (if m1 = 0 then NaN else Infinity (s1 \<noteq> s2))
      else if m1 = 0 then Finite (s1 \<noteq> s2) 0 0
      else round_nearest (s1 \<noteq> s2)
             (m1 * 2 ^ nat (e1 - e2)) (m2 * 2 ^ nat (e2 - e1)))"

text \<open>A number is falsy, for \<^verbatim>\<open>||\<close>, when it is \<open>NaN\<close> or a zero.\<close>

fun truthy_number :: "number \<Rightarrow> bool" where
  "truthy_number NaN = False"
| "truthy_number (Infinity _) = True"
| "truthy_number (Finite _ m _) = (m \<noteq> 0)"

section \<open>Numbers and text\<close>

text \<open>
  The display is a JavaScript string; every character the calculator can put there is
  ASCII, and a string is modelled as a list of characters.
\<close>

definition is_digit :: "char \<Rightarrow> bool" where
  "is_digit c = (c \<in> set ''0123456789'')"

definition digit_value :: "char \<Rightarrow> int" where
  "digit_value c = of_char c - 48"

definition digits_value :: "string \<Rightarrow> int" where
  "digits_value ds = foldl (\<lambda>a c. 10 * a + digit_value c) 0 ds"

definition is_white :: "char \<Rightarrow> bool" where
  "is_white c = (of_char c \<in> {9, 10, 11, 12, 13, 32 :: nat})"

fun split_sign :: "string \<Rightarrow> bool \<times> string" where
  "split_sign [] = (False, [])"
| "split_sign (c # cs) =
     (if c = CHR ''-'' then (True, cs)
      else if c = CHR ''+'' then (False, cs) else (False, c # cs))"

text \<open>The exponent part of a decimal literal, \<open>0\<close> when there is none or it is incomplete.\<close>

definition signed_digits :: "bool \<times> string \<Rightarrow> int" where
  "signed_digits nr =
     (if takeWhile is_digit (snd nr) = [] then 0
      else signed (fst nr) (digits_value (takeWhile is_digit (snd nr))))"

fun exponent_part :: "string \<Rightarrow> int" where
  "exponent_part [] = 0"
| "exponent_part (c # cs) =
     (if c = CHR ''e'' \<or> c = CHR ''E'' then signed_digits (split_sign cs) else 0)"

definition decimal_value :: "bool \<Rightarrow> int \<Rightarrow> int \<Rightarrow> number" where
  "decimal_value neg d t =
     (if d = 0 then Finite neg 0 0 else round_nearest neg (d * 10 ^ nat t) (10 ^ nat (- t)))"

text \<open>
  \<^verbatim>\<open>parseFloat\<close>: leading white space is skipped, the longest prefix that is a decimal
  literal (a sign, then \<^verbatim>\<open>Infinity\<close> or digits with an optional point and exponent) is
  read, and \<open>NaN\<close> is the result when there is no such prefix. A point counts after
  digits, or before at least one digit.
\<close>

definition integer_part :: "string \<Rightarrow> string" where
  "integer_part r = takeWhile is_digit r"

fun after_point :: "string \<Rightarrow> string option" where
  "after_point [] = None"
| "after_point (c # cs) = (if c = CHR ''.'' then Some cs else None)"

definition fraction_part :: "string \<Rightarrow> string" where
  "fraction_part r =
     (case after_point (dropWhile is_digit r) of
        None \<Rightarrow> []
      | Some cs \<Rightarrow> takeWhile is_digit cs)"

definition rest :: "string \<Rightarrow> string" where
  "rest r =
     (case after_point (dropWhile is_digit r) of
        None \<Rightarrow> dropWhile is_digit r
      | Some cs \<Rightarrow> dropWhile is_digit cs)"

definition unsigned_literal :: "bool \<Rightarrow> string \<Rightarrow> number" where
  "unsigned_literal neg r =
     (if take 8 r = ''Infinity'' then Infinity neg
      else if integer_part r = [] \<and> fraction_part r = [] then NaN
      else decimal_value neg (digits_value (integer_part r @ fraction_part r))
             (exponent_part (rest r) - int (length (fraction_part r))))"

definition parseFloat :: "string \<Rightarrow> number" where
  "parseFloat inputString =
     unsigned_literal (fst (split_sign (dropWhile is_white inputString)))
       (snd (split_sign (dropWhile is_white inputString)))"

text \<open>The decimal digits of a non-negative integer.\<close>

function digits_nat :: "int \<Rightarrow> string" where
  "digits_nat n =
     (if n < 10 then [''0123456789'' ! nat n]
      else digits_nat (n div 10) @ [''0123456789'' ! nat (n mod 10)])"
  by pat_completeness auto
termination
  by (relation "measure nat") auto

declare digits_nat.simps [simp del]

text \<open>
  \<^verbatim>\<open>Number::toString\<close> writes the shortest digit string \<open>s\<close> (of \<open>k\<close> digits) and the
  decimal exponent \<open>n\<close> with \<open>s * 10^(n - k)\<close> rounding to the number. For the positive
  value \<open>p / q\<close>, \<open>decimal_exponent\<close> is the \<open>n\<close> with \<open>10^(n - 1) \<le> p / q < 10^n\<close>, and
  \<open>candidate\<close> tries the two \<open>k\<close>-digit neighbours of the value, \<open>lower\<close> and \<open>lower + 1\<close>
  times \<open>10^(n - k)\<close>: of those that round to \<open>x\<close> the nearer one wins, the even one at a
  tie.
\<close>

definition decimal_exponent :: "int \<Rightarrow> int \<Rightarrow> int" where
  "decimal_exponent p q =
     (let d = int (length (digits_nat p)) - int (length (digits_nat q))
      in if q * 10 ^ nat d \<le> p * 10 ^ nat (- d) then d + 1 else d)"

definition lower :: "int \<Rightarrow> int \<Rightarrow> int \<Rightarrow> int \<Rightarrow> int" where
  "lower p q n k = (p * 10 ^ nat (k - n)) div (q * 10 ^ nat (n - k))"

definition near_lower :: "int \<Rightarrow> int \<Rightarrow> int \<Rightarrow> int \<Rightarrow> bool" where
  "near_lower p q n k =
     (let b = q * 10 ^ nat (n - k); r = (p * 10 ^ nat (k - n)) mod b
      in 2 * r < b \<or> (2 * r = b \<and> even (lower p q n k)))"

definition rounds_to :: "number \<Rightarrow> int \<Rightarrow> int \<Rightarrow> bool" where
  "rounds_to x s t = (round_nearest False (s * 10 ^ nat t) (10 ^ nat (- t)) = x)"

definition with_exponent :: "int \<Rightarrow> int \<Rightarrow> int \<Rightarrow> int \<times> int" where
  "with_exponent s n k = (if s = 10 ^ nat k then (10 ^ nat (k - 1), n + 1) else (s, n))"

definition candidate_found :: "number \<Rightarrow> int \<Rightarrow> int \<Rightarrow> int \<Rightarrow> int \<Rightarrow> bool" where
  "candidate_found x p q n k =
     (rounds_to x (lower p q n k) (n - k) \<or> rounds_to x (lower p q n k + 1) (n - k))"

definition candidate :: "number \<Rightarrow> int \<Rightarrow> int \<Rightarrow> int \<Rightarrow> int \<Rightarrow> int \<times> int" where
  "candidate x p q n k =
     (if rounds_to x (lower p q n k) (n - k)
         \<and> (near_lower p q n k \<or> \<not> rounds_to x (lower p q n k + 1) (n - k))
      then with_exponent (lower p q n k) n k
      else with_exponent (lower p q n k + 1) n k)"

definition nearest :: "int \<Rightarrow> int \<Rightarrow> int \<Rightarrow> int \<Rightarrow> int \<times> int" where
  "nearest p q n k =
     with_exponent (if near_lower p q n k then lower p q n k else lower p q n k + 1) n k"

text \<open>
  The search runs over \<open>k = 1, 2, \<dots>\<close>; seventeen digits always identify a binary64 value,
  so the nearest seventeen-digit string ends it.
\<close>

fun shortest :: "nat \<Rightarrow> number \<Rightarrow> int \<Rightarrow> int \<Rightarrow> int \<Rightarrow> int \<Rightarrow> int \<times> int" where
  "shortest 0 x p q n k = nearest p q n k"
| "shortest (Suc fuel) x p q n k =
     (if candidate_found x p q n k then candidate x p q n k
      else shortest fuel x p q n (k + 1))"

text \<open>The layout of the digits \<open>ds\<close> with decimal exponent \<open>n\<close>.\<close>

definition layout :: "string \<Rightarrow> int \<Rightarrow> string" where
  "layout ds n =
     (let k = int (length ds)
      in if k \<le> n \<and> n \<le> 21 then ds @ replicate (nat (n - k)) CHR ''0''
         else if 0 < n \<and> n \<le> 21 then take (nat n) ds @ ''.'' @ drop (nat n) ds
         else if - 6 < n \<and> n \<le> 0 then ''0.'' @ replicate (nat (- n)) CHR ''0'' @ ds
         else (if k = 1 then ds else hd ds # ''.'' @ tl ds)
              @ ''e'' @ (if 0 \<le> n - 1 then ''+'' else ''-'') @ digits_nat \<bar>n - 1\<bar>)"

definition digits_layout :: "int \<times> int \<Rightarrow> string" where
  "digits_layout sn = layout (digits_nat (fst sn)) (snd sn)"

definition shortest_digits :: "int \<Rightarrow> int \<Rightarrow> int \<times> int" where
  "shortest_digits p q = shortest 16 (round_nearest False p q) p q (decimal_exponent p q) 1"

definition positive_to_string :: "int \<Rightarrow> int \<Rightarrow> string" where
  "positive_to_string m e = digits_layout (shortest_digits (m * 2 ^ nat e) (2 ^ nat (- e)))"

fun number_to_string :: "number \<Rightarrow> string" where
  "number_to_string NaN = ''NaN''"
| "number_to_string (Infinity neg) = (if neg then ''-Infinity'' else ''Infinity'')"
| "number_to_string (Finite neg m e) =
     (if m = 0 then ''0'' else (if neg then ''-'' else []) @ positive_to_string m e)"

section \<open>The calculator\<close>

text \<open>
  The component keeps four pieces of calculator state (\<^verbatim>\<open>useState\<close>): the display text,
  the pending left operand (\<^verbatim>\<open>number | null\<close>), the pending operator
  (\<^verbatim>\<open>string | null\<close>) and the flag that the next digit starts a new number. The
  fifth, \<^verbatim>\<open>isDarkMode\<close>, belongs to the theme and no handler below reads it. Each
  handler reads the state of the current render and sets the next one, so a handler is a
  function from state to state.
\<close>

record calculator =
  display :: string
  previousValue :: "number option"
  operation :: "string option"
  waitingForNewValue :: bool

definition initial :: calculator where
  "initial = \<lparr>display = ''0'', previousValue = None, operation = None,
              waitingForNewValue = False\<rparr>"

text \<open>\<^verbatim>\<open>calculate\<close> returns \<^verbatim>\<open>number | string\<close>; \<^verbatim>\<open>String\<close> of either is its text.\<close>

datatype number_or_string = Number number | Text string

definition String_of :: "number_or_string \<Rightarrow> string" where
  "String_of v = (case v of Number n \<Rightarrow> number_to_string n | Text t \<Rightarrow> t)"

definition calculate :: "number \<Rightarrow> number \<Rightarrow> string \<Rightarrow> number_or_string" where
  "calculate firstValue secondValue op =
     (if op = ''+'' then Number (fadd firstValue secondValue)
      else if op = ''-'' then Number (fsub firstValue secondValue)
      else if op = ''*'' then Number (fmul firstValue secondValue)
      else if op = ''/'' then
        (if is_zero secondValue then Text ''Error''
         else Number (fdiv firstValue secondValue))
      else Number secondValue)"

text \<open>
  A string or \<^verbatim>\<open>null\<close> is truthy when it is a string and not the empty one; this is
  the test the handlers below make on the pending operator before they use it.
\<close>

definition error_state :: "calculator \<Rightarrow> calculator" where
  "error_state s = s\<lparr>display := ''Error'', previousValue := None, operation := None,
                     waitingForNewValue := True\<rparr>"

definition inputNumber :: "string \<Rightarrow> calculator \<Rightarrow> calculator" where
  "inputNumber num s =
     (if waitingForNewValue s then s\<lparr>display := num, waitingForNewValue := False\<rparr>
      else s\<lparr>display := (if display s = ''0'' then num else display s @ num)\<rparr>)"

definition inputOperation :: "string \<Rightarrow> calculator \<Rightarrow> calculator" where
  "inputOperation nextOperation s =
     (let inputValue = parseFloat (display s)
      in case previousValue s of
           None \<Rightarrow>
             s\<lparr>previousValue := Some inputValue, waitingForNewValue := True,
               operation := Some nextOperation\<rparr>
         | Some pv \<Rightarrow>
             (case operation s of
                Some op \<Rightarrow>
                  if op \<noteq> [] then
                    (let currentValue = (if truthy_number pv then pv else zero);
                         newValue = calculate currentValue inputValue op
                     in if newValue = Text ''Error'' then error_state s
                        else s\<lparr>display := String_of newValue,
                               previousValue :=
                                 (case newValue of Number n \<Rightarrow> Some n | Text _ \<Rightarrow> None),
                               waitingForNewValue := True,
                               operation := Some nextOperation\<rparr>)
                  else s\<lparr>waitingForNewValue := True, operation := Some nextOperation\<rparr>
              | None \<Rightarrow> s\<lparr>waitingForNewValue := True, operation := Some nextOperation\<rparr>))"

definition performCalculation :: "calculator \<Rightarrow> calculator" where
  "performCalculation s =
     (let inputValue = parseFloat (display s)
      in case (previousValue s, operation s) of
           (Some pv, Some op) \<Rightarrow>
             if op \<noteq> [] then
               (let newValue = calculate pv inputValue op
                in if newValue = Text ''Error'' then error_state s
                   else s\<lparr>display := String_of newValue, previousValue := None,
                          operation := None, waitingForNewValue := True\<rparr>)
             else s
         | _ \<Rightarrow> s)"

definition clearAll :: "calculator \<Rightarrow> calculator" where
  "clearAll s = s\<lparr>display := ''0'', previousValue := None, operation := None,
                  waitingForNewValue := False\<rparr>"

definition backspace :: "calculator \<Rightarrow> calculator" where
  "backspace s =
     (if 1 < length (display s) then s\<lparr>display := butlast (display s)\<rparr>
      else s\<lparr>display := ''0''\<rparr>)"

text \<open>
  The buttons and the keyboard call the handlers with the digit keys \<^verbatim>\<open>0\<close> to \<^verbatim>\<open>9\<close> and
  \<^verbatim>\<open>.\<close>, the operator keys \<^verbatim>\<open>+ - * /\<close>, equals, clear and backspace.
\<close>

datatype action = Digit char | Operator string | Equals | Clear | Backspace

fun step :: "calculator \<Rightarrow> action \<Rightarrow> calculator" where
  "step s (Digit d) = inputNumber [d] s"
| "step s (Operator op) = inputOperation op s"
| "step s Equals = performCalculation s"
| "step s Clear = clearAll s"
| "step s Backspace = backspace s"

definition run :: "action list \<Rightarrow> calculator \<Rightarrow> calculator" where
  "run as s = foldl step s as"

definition digit_key :: "char \<Rightarrow> bool" where
  "digit_key d = (d \<in> set ''0123456789.'')"

definition operator_key :: "string \<Rightarrow> bool" where
  "operator_key op = (op \<in> {''+'', ''-'', ''*'', ''/''})"

fun key :: "action \<Rightarrow> bool" where
  "key (Digit d) = digit_key d"
| "key (Operator op) = operator_key op"
| "key _ = True"

text \<open>
  Three predicates on states for the statements below. A computation is pending when
  there is a pending operand and a truthy pending operator: then the operator and equals
  handlers call \<open>calculate\<close>. \<open>operand_has_operator\<close> says that a pending operand comes with
  a truthy pending operator. \<open>numeral_with_optional_point\<close> is the data model's description
  of a display that is not the error text: digits with at most one decimal point.
\<close>

definition computation_pending :: "calculator \<Rightarrow> bool" where
  "computation_pending s =
     (previousValue s \<noteq> None \<and> operation s \<noteq> None \<and> operation s \<noteq> Some [])"

definition operand_has_operator :: "calculator \<Rightarrow> bool" where
  "operand_has_operator s =
     (previousValue s = None \<or> (operation s \<noteq> None \<and> operation s \<noteq> Some []))"

definition numeral_with_optional_point :: "string \<Rightarrow> bool" where
  "numeral_with_optional_point t =
     (t \<noteq> [] \<and> list_all digit_key t \<and> length (filter (\<lambda>c. c = CHR ''.'') t) \<le> 1)"


section \<open>Evaluating the number model\<close>

text \<open>
  The recursive functions of the number model unfold only at arguments that decide their
  tests, so that the simplifier evaluates them at numerals and stops at variables.
\<close>

lemma bit_count_eval:
  "n \<le> 0 \<Longrightarrow> bit_count n = 0"
  "0 < n \<Longrightarrow> bit_count n = 1 + bit_count (n div 2)"
  by (subst bit_count.simps, simp)+

lemma odd_mantissa_eval:
  "0 < m \<Longrightarrow> even m \<Longrightarrow> odd_mantissa m e = odd_mantissa (m div 2) (e + 1)"
  "m \<le> 0 \<or> odd m \<Longrightarrow> odd_mantissa m e = (m, e)"
  by (subst odd_mantissa.simps, auto)+

lemma digits_nat_eval:
  "n < 10 \<Longrightarrow> digits_nat n = [''0123456789'' ! nat n]"
  "10 \<le> n \<Longrightarrow> digits_nat n = digits_nat (n div 10) @ [''0123456789'' ! nat (n mod 10)]"
  by (subst digits_nat.simps, simp)+

lemma shortest_eval:
  "shortest (numeral v) x p q n k =
     (if candidate_found x p q n k then candidate x p q n k
      else shortest (pred_numeral v) x p q n (k + 1))"
  by (simp only: numeral_eq_Suc shortest.simps)

lemma replicate_eval:
  "replicate (numeral v) c = c # replicate (pred_numeral v) c"
  "replicate 1 c = [c]"
  by (simp_all only: numeral_eq_Suc replicate.simps One_nat_def)

lemmas number_eval =
  bit_count_eval odd_mantissa_eval nearest_even_def binary_exponent_def lowest_bit_def
  pack_def round_nearest_def round_dyadic_def exact_sum_def signed_def fsub_def zero_def
  Let_def

lemmas text_eval =
  is_digit_def digit_value_def digits_value_def is_white_def signed_digits_def
  integer_part_def fraction_part_def rest_def unsigned_literal_def decimal_value_def
  parseFloat_def digits_nat_eval decimal_exponent_def lower_def near_lower_def rounds_to_def
  with_exponent_def candidate_found_def candidate_def nearest_def shortest_eval
  replicate_eval layout_def digits_layout_def shortest_digits_def positive_to_string_def

lemma parseFloat_keys:
  "parseFloat ''0'' = Finite False 0 0"
  "parseFloat ''2'' = Finite False 1 1"
  "parseFloat ''3'' = Finite False 3 0"
  "parseFloat ''4'' = Finite False 1 2"
  "parseFloat ''5'' = Finite False 5 0"
  "parseFloat ''6'' = Finite False 3 1"
  by (simp_all add: number_eval text_eval)

lemma parseFloat_Error: "parseFloat ''Error'' = NaN"
  by (simp add: text_eval)

lemma sums_and_products:
  "fadd (Finite False 1 1) (Finite False 3 0) = Finite False 5 0"
  "fmul (Finite False 5 0) (Finite False 1 2) = Finite False 5 2"
  "fadd (Finite False 0 0) (Finite False 5 0) = Finite False 5 0"
  by (simp_all add: number_eval)

lemma number_to_string_results:
  "number_to_string (Finite False 5 0) = ''5''"
  "number_to_string (Finite False 5 2) = ''20''"
  by (simp_all add: number_eval text_eval)

section \<open>The text of a number\<close>

text \<open>
  The text of a number is never empty, and it has no letter \<^verbatim>\<open>E\<close>: it is written with
  digits, the point, the signs and the letters of \<^verbatim>\<open>e\<close>, \<^verbatim>\<open>NaN\<close> and \<^verbatim>\<open>Infinity\<close>. So it
  is never the text \<^verbatim>\<open>Error\<close>.
\<close>

lemma digits_nat_nonempty: "digits_nat n \<noteq> []"
  by (subst digits_nat.simps) simp

lemma digit_char: "k < 10 \<Longrightarrow> ''0123456789'' ! k \<in> set ''0123456789''"
  by (rule nth_mem) simp

lemma digits_nat_chars: "set (digits_nat n) \<subseteq> set ''0123456789''"
proof (induction n rule: digits_nat.induct)
  case (1 n)
  show ?case
  proof (cases "n < 10")
    case True
    then have "nat n < 10" by simp
    then have "''0123456789'' ! nat n \<in> set ''0123456789''" by (rule digit_char)
    with True show ?thesis by (subst digits_nat.simps) simp
  next
    case False
    have "nat (n mod 10) < 10" by simp
    then have last: "''0123456789'' ! nat (n mod 10) \<in> set ''0123456789''"
      by (rule digit_char)
    from False have init: "set (digits_nat (n div 10)) \<subseteq> set ''0123456789''"
      by (rule "1.IH")
    from False have "digits_nat n = digits_nat (n div 10) @ [''0123456789'' ! nat (n mod 10)]"
      by (subst digits_nat.simps) simp
    with init last show ?thesis by simp
  qed
qed

lemma digits_nat_no_E: "CHR ''E'' \<notin> set (digits_nat n)"
  using digits_nat_chars [of n] by auto

lemma layout_nonempty: "ds \<noteq> [] \<Longrightarrow> layout ds n \<noteq> []"
  by (simp add: layout_def Let_def)

lemma layout_no_E:
  assumes "ds \<noteq> []" and "CHR ''E'' \<notin> set ds"
  shows "CHR ''E'' \<notin> set (layout ds n)"
proof -
  from assms have hd: "CHR ''E'' \<noteq> hd ds"
    by (cases ds) auto
  from assms have tl: "CHR ''E'' \<notin> set (tl ds)"
    by (cases ds) auto
  from assms(2) have tk: "CHR ''E'' \<notin> set (take (nat n) ds)"
    by (auto dest: in_set_takeD)
  from assms(2) have dr: "CHR ''E'' \<notin> set (drop (nat n) ds)"
    by (auto dest: in_set_dropD)
  from hd tl tk dr assms(2) show ?thesis
    by (simp add: layout_def Let_def digits_nat_no_E)
qed

lemma positive_to_string_nonempty: "positive_to_string m e \<noteq> []"
  unfolding positive_to_string_def digits_layout_def
  by (rule layout_nonempty) (rule digits_nat_nonempty)

lemma positive_to_string_no_E: "CHR ''E'' \<notin> set (positive_to_string m e)"
  unfolding positive_to_string_def digits_layout_def
  by (rule layout_no_E) (rule digits_nat_nonempty, rule digits_nat_no_E)

lemma number_to_string_nonempty: "number_to_string x \<noteq> []"
  by (cases x) (simp_all add: positive_to_string_nonempty)

lemma number_to_string_no_E: "CHR ''E'' \<notin> set (number_to_string x)"
  by (cases x) (simp_all add: positive_to_string_no_E)

lemma number_to_string_not_Error: "number_to_string x \<noteq> ''Error''"
proof
  assume "number_to_string x = ''Error''"
  then have "CHR ''E'' \<in> set (number_to_string x)" by simp
  with number_to_string_no_E [of x] show False by simp
qed

section \<open>Facts about the handlers\<close>

lemmas handler_defs =
  inputNumber_def inputOperation_def performCalculation_def clearAll_def backspace_def
  error_state_def calculate_def String_of_def

lemmas run_eval =
  run_def initial_def handler_defs zero_def parseFloat_keys parseFloat_Error
  sums_and_products number_to_string_results

lemma error_state_eq:
  "error_state s = \<lparr>display = ''Error'', previousValue = None, operation = None,
                      waitingForNewValue = True\<rparr>"
  by (cases s) (simp add: error_state_def)

lemma calculate_result:
  "calculate a b op = Text ''Error'' \<or> (\<exists>n. calculate a b op = Number n)"
  by (simp add: calculate_def)

lemma calculate_Error_iff:
  "calculate a b op = Text ''Error'' \<longleftrightarrow> op = ''/'' \<and> is_zero b"
  by (simp add: calculate_def)

lemma fadd_NaN: "fadd a NaN = NaN"
  by (cases a) simp_all

lemma fmul_NaN: "fmul a NaN = NaN"
  by (cases a) simp_all

lemma fdiv_NaN: "fdiv a NaN = NaN"
  by (cases a) simp_all

lemma calculate_NaN: "calculate a NaN op = Number NaN"
  by (simp add: calculate_def fsub_def fadd_NaN fmul_NaN fdiv_NaN)

lemma String_of_calculate_nonempty:
  "String_of (calculate a b op) \<noteq> []"
  using calculate_result [of a b op]
  by (auto simp add: String_of_def number_to_string_nonempty)

lemma String_of_calculate_not_Error:
  "calculate a b op \<noteq> Text ''Error'' \<Longrightarrow> String_of (calculate a b op) \<noteq> ''Error''"
  using calculate_result [of a b op]
  by (auto simp add: String_of_def number_to_string_not_Error)

lemma butlast_nonempty: "1 < length xs \<Longrightarrow> butlast xs \<noteq> []"
  by (cases xs) auto

text \<open>The display is never empty after a handler, whatever it was before.\<close>

lemma step_display_nonempty:
  "display s \<noteq> [] \<Longrightarrow> display (step s a) \<noteq> []"
proof (cases a)
  case (Operator nxt)
  assume "display s \<noteq> []"
  then show ?thesis
    unfolding Operator step.simps inputOperation_def error_state_def Let_def
    by (simp add: String_of_calculate_nonempty split: option.split)
next
  case Equals
  assume "display s \<noteq> []"
  then show ?thesis
    unfolding Equals step.simps performCalculation_def error_state_def Let_def
    by (simp add: String_of_calculate_nonempty split: option.split)
qed (auto simp add: inputNumber_def clearAll_def backspace_def butlast_nonempty)

lemma foldl_step_display_nonempty:
  "display s \<noteq> [] \<Longrightarrow> display (foldl step s as) \<noteq> []"
  by (induction as arbitrary: s) (simp_all add: step_display_nonempty)

text \<open>
  In every state the keys can reach, a pending operand comes with a pending operator.
\<close>

lemma step_operand_has_operator:
  assumes "operand_has_operator s" and "key a"
  shows "operand_has_operator (step s a)"
proof (cases a)
  case (Operator nxt)
  with assms(2) have "nxt \<noteq> []"
    by (auto simp add: operator_key_def)
  then show ?thesis
    unfolding Operator step.simps inputOperation_def error_state_def Let_def
      operand_has_operator_def
    by (simp split: option.split)
next
  case Equals
  from assms(1) show ?thesis
    unfolding Equals step.simps performCalculation_def error_state_def Let_def
      operand_has_operator_def
    by (auto split: option.split)
qed (use assms(1) in \<open>auto simp add: operand_has_operator_def inputNumber_def clearAll_def
      backspace_def\<close>)

lemma foldl_step_operand_has_operator:
  "operand_has_operator s \<Longrightarrow> list_all key as \<Longrightarrow> operand_has_operator (foldl step s as)"
  by (induction as arbitrary: s) (simp_all add: step_operand_has_operator)

lemma reachable_operand_has_operator:
  "list_all key as \<Longrightarrow> operand_has_operator (run as initial)"
  unfolding run_def
  by (rule foldl_step_operand_has_operator) (simp_all add: operand_has_operator_def initial_def)

section \<open>Division by zero\<close>

text \<open>
  C1. Division by zero is the single error kind. Whenever the operator or the equals
  handler computes \<open>calculate a b ''/''\<close> with \<open>b\<close> a zero, the next state has display
  \<^verbatim>\<open>Error\<close>, no pending operand, no pending operator and the fresh-entry flag set;
  \<open>calculate\<close> returns a text only then, and that text is \<^verbatim>\<open>Error\<close>; and the keys
  \<^verbatim>\<open>6 / 0 =\<close> from the initial state end with display \<^verbatim>\<open>Error\<close>. The handlers are total
  functions from state to state: nothing is thrown.
\<close>

theorem division_by_zero_shows_Error:
  "(previousValue s = Some a \<and> operation s = Some ''/'' \<and> is_zero (parseFloat (display s)) \<longrightarrow>
      inputOperation nxt s =
        \<lparr>display = ''Error'', previousValue = None, operation = None,
         waitingForNewValue = True\<rparr>
      \<and> performCalculation s =
        \<lparr>display = ''Error'', previousValue = None, operation = None,
         waitingForNewValue = True\<rparr>)
   \<and> (calculate x y op = Text t \<longrightarrow> t = ''Error'' \<and> op = ''/'' \<and> is_zero y)
   \<and> display (run [Digit CHR ''6'', Operator ''/'', Digit CHR ''0'', Equals] initial)
        = ''Error''"
proof (intro conjI impI)
  assume h: "previousValue s = Some a \<and> operation s = Some ''/''
    \<and> is_zero (parseFloat (display s))"
  then have c: "\<And>v. calculate v (parseFloat (display s)) ''/'' = Text ''Error''"
    by (simp add: calculate_def)
  from h c show "inputOperation nxt s =
      \<lparr>display = ''Error'', previousValue = None, operation = None,
       waitingForNewValue = True\<rparr>"
    by (simp add: inputOperation_def Let_def error_state_eq)
  from h c show "performCalculation s =
      \<lparr>display = ''Error'', previousValue = None, operation = None,
       waitingForNewValue = True\<rparr>"
    by (simp add: performCalculation_def Let_def error_state_eq)
next
  assume "calculate x y op = Text t"
  then show "t = ''Error''" and "op = ''/''" and "is_zero y"
    by (simp_all add: calculate_def split: if_splits)
next
  show "display (run [Digit CHR ''6'', Operator ''/'', Digit CHR ''0'', Equals] initial)
      = ''Error''"
    by (simp add: run_eval del: fadd.simps fmul.simps number_to_string.simps)
qed

theorem division_by_zero_shows_Error_witness:
  "previousValue (run [Digit CHR ''6'', Operator ''/'', Digit CHR ''0''] initial)
     = Some (Finite False 3 1)
   \<and> operation (run [Digit CHR ''6'', Operator ''/'', Digit CHR ''0''] initial) = Some ''/''
   \<and> is_zero (parseFloat (display (run [Digit CHR ''6'', Operator ''/'', Digit CHR ''0''] initial)))
   \<and> inputOperation ''+'' (run [Digit CHR ''6'', Operator ''/'', Digit CHR ''0''] initial) =
        \<lparr>display = ''Error'', previousValue = None, operation = None,
         waitingForNewValue = True\<rparr>
   \<and> performCalculation (run [Digit CHR ''6'', Operator ''/'', Digit CHR ''0''] initial) =
        \<lparr>display = ''Error'', previousValue = None, operation = None,
         waitingForNewValue = True\<rparr>
   \<and> calculate (Finite False 3 1) (Finite True 0 0) ''/'' = Text ''Error''"
  using division_by_zero_shows_Error
    [where s = "run [Digit CHR ''6'', Operator ''/'', Digit CHR ''0''] initial"
       and a = "Finite False 3 1" and nxt = "''+''" and x = "Finite False 3 1"
       and y = "Finite True 0 0" and op = "''/''" and t = "''Error''"]
  by (simp add: run_eval del: fadd.simps fmul.simps number_to_string.simps)

section \<open>Chained operators\<close>

lemma parseFloat_8: "parseFloat ''8'' = Finite False 1 3"
  by (simp add: number_eval text_eval)

lemma fsub_8_3: "fsub (Finite False 1 3) (Finite False 3 0) = Finite False 5 0"
  by (simp add: number_eval)

text \<open>
  C2. Chained binary operations are evaluated from left to right, with no precedence. In
  any state, an operator key with no pending operand only stores the displayed number and
  the key. With a pending operand \<open>a\<close> and a pending operator \<open>op\<close> (a non-empty string, as
  every operator key is) it applies \<open>op\<close> at once to \<open>a\<close> (zero in its place when \<open>a\<close> is
  falsy) and the displayed number, whatever the new operator key \<open>nxt\<close> is: when the result
  is a number \<open>r\<close>, the display is the text of \<open>r\<close>, the pending operand is \<open>r\<close> and the
  pending operator is \<open>nxt\<close>. So the keys \<^verbatim>\<open>2 + 3 * 4 =\<close> from the initial state show \<^verbatim>\<open>5\<close>
  when \<^verbatim>\<open>*\<close> is pressed and end with display \<^verbatim>\<open>20\<close>, which is \<open>(2 + 3) * 4\<close>, and not
  with \<^verbatim>\<open>14\<close>.
\<close>

theorem chained_operators_left_to_right:
  "(previousValue s = None \<longrightarrow>
      inputOperation nxt s =
        s\<lparr>previousValue := Some (parseFloat (display s)), waitingForNewValue := True,
          operation := Some nxt\<rparr>)
   \<and> (previousValue s = Some a \<and> operation s = Some op \<and> op \<noteq> []
        \<and> calculate (if truthy_number a then a else zero) (parseFloat (display s)) op
            = Number r \<longrightarrow>
      inputOperation nxt s =
        s\<lparr>display := number_to_string r, previousValue := Some r,
          waitingForNewValue := True, operation := Some nxt\<rparr>)
   \<and> display (run [Digit CHR ''2'', Operator ''+'', Digit CHR ''3'', Operator ''*''] initial)
        = ''5''
   \<and> display (run [Digit CHR ''2'', Operator ''+'', Digit CHR ''3'', Operator ''*'',
                    Digit CHR ''4'', Equals] initial) = ''20''
   \<and> display (run [Digit CHR ''2'', Operator ''+'', Digit CHR ''3'', Operator ''*'',
                    Digit CHR ''4'', Equals] initial) \<noteq> ''14''"
proof (intro conjI impI)
  assume "previousValue s = None"
  then show "inputOperation nxt s =
      s\<lparr>previousValue := Some (parseFloat (display s)), waitingForNewValue := True,
        operation := Some nxt\<rparr>"
    by (simp add: inputOperation_def Let_def)
next
  assume "previousValue s = Some a \<and> operation s = Some op \<and> op \<noteq> []
    \<and> calculate (if truthy_number a then a else zero) (parseFloat (display s)) op = Number r"
  then show "inputOperation nxt s =
      s\<lparr>display := number_to_string r, previousValue := Some r,
        waitingForNewValue := True, operation := Some nxt\<rparr>"
    by (simp add: inputOperation_def String_of_def Let_def)
next
  show "display (run [Digit CHR ''2'', Operator ''+'', Digit CHR ''3'', Operator ''*''] initial)
      = ''5''"
    by (simp add: run_eval del: fadd.simps fmul.simps number_to_string.simps)
next
  show "display (run [Digit CHR ''2'', Operator ''+'', Digit CHR ''3'', Operator ''*'',
      Digit CHR ''4'', Equals] initial) = ''20''"
    by (simp add: run_eval del: fadd.simps fmul.simps number_to_string.simps)
  then show "display (run [Digit CHR ''2'', Operator ''+'', Digit CHR ''3'', Operator ''*'',
      Digit CHR ''4'', Equals] initial) \<noteq> ''14''"
    by simp
qed

theorem chained_operators_left_to_right_witness:
  "previousValue (run [Digit CHR ''8''] initial) = None
   \<and> inputOperation ''-'' (run [Digit CHR ''8''] initial) =
        \<lparr>display = ''8'', previousValue = Some (Finite False 1 3), operation = Some ''-'',
         waitingForNewValue = True\<rparr>
   \<and> previousValue (run [Digit CHR ''8'', Operator ''-'', Digit CHR ''3''] initial)
        = Some (Finite False 1 3)
   \<and> operation (run [Digit CHR ''8'', Operator ''-'', Digit CHR ''3''] initial) = Some ''-''
   \<and> calculate (Finite False 1 3)
        (parseFloat (display (run [Digit CHR ''8'', Operator ''-'', Digit CHR ''3''] initial)))
        ''-'' = Number (Finite False 5 0)
   \<and> inputOperation ''*'' (run [Digit CHR ''8'', Operator ''-'', Digit CHR ''3''] initial) =
        \<lparr>display = ''5'', previousValue = Some (Finite False 5 0), operation = Some ''*'',
         waitingForNewValue = True\<rparr>"
  using chained_operators_left_to_right
    [where s = "run [Digit CHR ''8''] initial" and nxt = "''-''"]
    chained_operators_left_to_right
    [where s = "run [Digit CHR ''8'', Operator ''-'', Digit CHR ''3''] initial"
       and a = "Finite False 1 3" and op = "''-''" and r = "Finite False 5 0"
       and nxt = "''*''"]
  by (simp add: run_eval parseFloat_8 fsub_8_3
        del: fadd.simps fmul.simps number_to_string.simps)

section \<open>Equals\<close>

text \<open>
  C5. With a pending operand \<open>a\<close> and a pending operator \<open>op\<close> (a non-empty string, as
  every operator key is), and \<open>calculate\<close> not returning the error text, equals sets the
  display to the text of \<open>calculate a (parseFloat display) op\<close>, clears the pending operand
  and operator and sets the fresh-entry flag. With no pending operand or no pending
  operator, equals leaves the whole state as it is; so \<^verbatim>\<open>5 =\<close> from the initial state
  leaves \<^verbatim>\<open>5\<close> on the display.
\<close>

theorem equals_computes_or_keeps:
  "(previousValue s = Some a \<and> operation s = Some op \<and> op \<noteq> []
      \<and> calculate a (parseFloat (display s)) op \<noteq> Text ''Error'' \<longrightarrow>
      performCalculation s =
        s\<lparr>display := String_of (calculate a (parseFloat (display s)) op),
          previousValue := None, operation := None, waitingForNewValue := True\<rparr>)
   \<and> (previousValue s = None \<or> operation s = None \<longrightarrow> performCalculation s = s)
   \<and> display (run [Digit CHR ''5'', Equals] initial) = ''5''"
  by (auto simp add: performCalculation_def Let_def run_def initial_def inputNumber_def
        split: option.split)

theorem equals_computes_or_keeps_witness:
  "previousValue (run [Digit CHR ''2'', Operator ''+'', Digit CHR ''3''] initial)
     = Some (Finite False 1 1)
   \<and> operation (run [Digit CHR ''2'', Operator ''+'', Digit CHR ''3''] initial) = Some ''+''
   \<and> calculate (Finite False 1 1)
        (parseFloat (display (run [Digit CHR ''2'', Operator ''+'', Digit CHR ''3''] initial)))
        ''+'' = Number (Finite False 5 0)
   \<and> performCalculation (run [Digit CHR ''2'', Operator ''+'', Digit CHR ''3''] initial) =
        \<lparr>display = ''5'', previousValue = None, operation = None,
         waitingForNewValue = True\<rparr>
   \<and> previousValue (run [Digit CHR ''5''] initial) = None
   \<and> performCalculation (run [Digit CHR ''5''] initial) = run [Digit CHR ''5''] initial"
  using equals_computes_or_keeps
    [where s = "run [Digit CHR ''2'', Operator ''+'', Digit CHR ''3''] initial"
       and a = "Finite False 1 1" and op = "''+''"]
    equals_computes_or_keeps [where s = "run [Digit CHR ''5''] initial"]
  by (simp add: run_eval del: fadd.simps fmul.simps number_to_string.simps)

section \<open>Clear\<close>

text \<open>
  C6. Clear, applied to any state and so to any reachable one, gives exactly the initial
  state: display \<^verbatim>\<open>0\<close>, no pending operand, no pending operator, fresh-entry flag off.
\<close>

theorem clearAll_initial:
  "clearAll s = initial
   \<and> clearAll s = \<lparr>display = ''0'', previousValue = None, operation = None,
                    waitingForNewValue = False\<rparr>
   \<and> step (run as initial) Clear = initial"
  by (cases s, cases "run as initial") (simp add: clearAll_def initial_def)

section \<open>Backspace\<close>

text \<open>
  C7. In every state, backspace drops the last character of a display of more than one
  character and sets a display of exactly one character to \<^verbatim>\<open>0\<close>; the pending operand,
  the pending operator and the fresh-entry flag stay as they are.
\<close>

theorem backspace_drops_last:
  "(1 < length (display s) \<longrightarrow> display (backspace s) = butlast (display s))
   \<and> (length (display s) = 1 \<longrightarrow> display (backspace s) = ''0'')
   \<and> previousValue (backspace s) = previousValue s
   \<and> operation (backspace s) = operation s
   \<and> waitingForNewValue (backspace s) = waitingForNewValue s"
  by (simp add: backspace_def)

theorem backspace_drops_last_witness:
  "1 < length (display (run [Digit CHR ''1'', Digit CHR ''2''] initial))
   \<and> display (backspace (run [Digit CHR ''1'', Digit CHR ''2''] initial)) = ''1''
   \<and> length (display (run [Digit CHR ''7''] initial)) = 1
   \<and> display (backspace (run [Digit CHR ''7''] initial)) = ''0''"
  using backspace_drops_last [where s = "run [Digit CHR ''1'', Digit CHR ''2''] initial"]
    backspace_drops_last [where s = "run [Digit CHR ''7''] initial"]
  by (simp add: run_def initial_def inputNumber_def)

section \<open>The arithmetic core\<close>

text \<open>
  C9. For all numbers \<open>a\<close> and \<open>b\<close>, \<open>calculate a b\<close> is the sum for \<^verbatim>\<open>+\<close>, the difference
  for \<^verbatim>\<open>-\<close>, the product for \<^verbatim>\<open>*\<close>, for \<^verbatim>\<open>/\<close> the error text when \<open>b\<close> is a zero and the
  quotient otherwise, and \<open>b\<close> itself for any other operator text.
\<close>

theorem calculate_four_functions:
  "calculate a b ''+'' = Number (fadd a b)
   \<and> calculate a b ''-'' = Number (fsub a b)
   \<and> calculate a b ''*'' = Number (fmul a b)
   \<and> calculate a b ''/'' = (if is_zero b then Text ''Error'' else Number (fdiv a b))
   \<and> (op \<notin> {''+'', ''-'', ''*'', ''/''} \<longrightarrow> calculate a b op = Number b)"
  by (simp add: calculate_def)

theorem calculate_four_functions_witness:
  "calculate (Finite False 3 1) (Finite False 3 0) ''+'' = Number (Finite False 9 0)
   \<and> calculate (Finite False 3 1) (Finite False 3 0) ''-'' = Number (Finite False 3 0)
   \<and> calculate (Finite False 3 1) (Finite False 3 0) ''*'' = Number (Finite False 9 1)
   \<and> calculate (Finite False 3 1) (Finite False 3 0) ''/'' = Number (Finite False 1 1)
   \<and> ''%'' \<notin> {''+'', ''-'', ''*'', ''/''}
   \<and> calculate (Finite False 3 1) (Finite False 3 0) ''%'' = Number (Finite False 3 0)"
  using calculate_four_functions
    [where a = "Finite False 3 1" and b = "Finite False 3 0" and op = "''%''"]
  by (simp add: number_eval)

section \<open>Digits\<close>

text \<open>
  A run of digit keys from a state that is not waiting for a fresh entry and whose display
  is not empty: a display \<^verbatim>\<open>0\<close> is replaced, any other display is extended.
\<close>

lemma digits_from:
  assumes "\<not> waitingForNewValue s" and "display s \<noteq> []"
  shows "display (foldl step s (map Digit ds)) =
      (if display s = ''0''
       then (if dropWhile (\<lambda>d. d = CHR ''0'') ds = [] then ''0''
             else dropWhile (\<lambda>d. d = CHR ''0'') ds)
       else display s @ ds)"
  using assms
proof (induction ds arbitrary: s)
  case Nil
  then show ?case by simp
next
  case (Cons d ds)
  let ?s = "inputNumber [d] s"
  from Cons.prems have w: "\<not> waitingForNewValue ?s" and n: "display ?s \<noteq> []"
    by (simp_all add: inputNumber_def)
  from Cons.prems have d: "display ?s = (if display s = ''0'' then [d] else display s @ [d])"
    by (simp add: inputNumber_def)
  have "display (foldl step s (map Digit (d # ds))) = display (foldl step ?s (map Digit ds))"
    by simp
  also have "\<dots> =
      (if display ?s = ''0''
       then (if dropWhile (\<lambda>d. d = CHR ''0'') ds = [] then ''0''
             else dropWhile (\<lambda>d. d = CHR ''0'') ds)
       else display ?s @ ds)"
    using w n by (rule Cons.IH)
  also have "\<dots> =
      (if display s = ''0''
       then (if dropWhile (\<lambda>d. d = CHR ''0'') (d # ds) = [] then ''0''
             else dropWhile (\<lambda>d. d = CHR ''0'') (d # ds))
       else display s @ d # ds)"
    using Cons.prems(2) by (cases "display s") (auto simp add: d)
  finally show ?case .
qed

text \<open>
  C8, as the spec states it, fails: a typed \<^verbatim>\<open>0\<close> is a lone zero on the display like the
  default one, and the next digit replaces it. The keys \<^verbatim>\<open>0 5\<close> show \<^verbatim>\<open>5\<close>, not \<^verbatim>\<open>05\<close>.
\<close>

theorem leading_zero_digit_replaced:
  "list_all digit_key ''05''
   \<and> display (run (map Digit ''05'') initial) = ''5''
   \<and> display (run (map Digit ''05'') initial) \<noteq> ''05''"
  by (simp add: digit_key_def run_def initial_def inputNumber_def)

text \<open>
  C8, amended. For every sequence of digit keys applied to the initial state, the display
  is the concatenation of the digit characters with its leading \<^verbatim>\<open>0\<close> characters
  removed, and \<^verbatim>\<open>0\<close> when nothing remains.
\<close>

theorem digits_display:
  "display (run (map Digit ds) initial) =
     (if dropWhile (\<lambda>d. d = CHR ''0'') ds = [] then ''0''
      else dropWhile (\<lambda>d. d = CHR ''0'') ds)"
proof -
  have "\<not> waitingForNewValue initial" and "display initial \<noteq> []"
    and "display initial = ''0''"
    by (simp_all add: initial_def)
  then show ?thesis
    unfolding run_def by (simp add: digits_from)
qed

theorem digits_display_witness:
  "display (run (map Digit ''0012.50'') initial) = ''12.50''
   \<and> display (run (map Digit ''000'') initial) = ''0''"
  using digits_display [of "''0012.50''"] digits_display [of "''000''"]
  by simp

section \<open>The display\<close>

text \<open>
  C4, as the spec states it, fails: backspace on the error text leaves \<^verbatim>\<open>Erro\<close> on the
  display, which is neither a numeral with an optional decimal point nor the error text.
\<close>

theorem display_Erro_reachable:
  "list_all key [Digit CHR ''6'', Operator ''/'', Digit CHR ''0'', Equals, Backspace]
   \<and> display (run [Digit CHR ''6'', Operator ''/'', Digit CHR ''0'', Equals, Backspace] initial)
        = ''Erro''
   \<and> \<not> numeral_with_optional_point ''Erro''
   \<and> ''Erro'' \<noteq> ''Error''"
  by (simp add: run_eval digit_key_def operator_key_def numeral_with_optional_point_def
        del: fadd.simps fmul.simps number_to_string.simps)

text \<open>
  C4, amended. In every state reached from the initial state by any sequence of the five
  actions, the display is not empty.
\<close>

theorem display_nonempty:
  "display (run as initial) \<noteq> []"
  unfolding run_def
  by (rule foldl_step_display_nonempty) (simp add: initial_def)

section \<open>Leaving the error text\<close>

text \<open>
  C3, as the spec states it, fails: after \<^verbatim>\<open>6 / 0 =\<close> the display is \<^verbatim>\<open>Error\<close>, and
  backspace moves it to \<^verbatim>\<open>Erro\<close>; an operator key followed by a second operator key, or
  by equals, moves it to \<^verbatim>\<open>NaN\<close>.
\<close>

theorem Error_left_by_backspace:
  "display (run [Digit CHR ''6'', Operator ''/'', Digit CHR ''0'', Equals] initial) = ''Error''
   \<and> display (step (run [Digit CHR ''6'', Operator ''/'', Digit CHR ''0'', Equals] initial)
        Backspace) = ''Erro''
   \<and> display (run [Digit CHR ''6'', Operator ''/'', Digit CHR ''0'', Equals, Operator ''+'']
        initial) = ''Error''
   \<and> display (step (run [Digit CHR ''6'', Operator ''/'', Digit CHR ''0'', Equals,
        Operator ''+''] initial) (Operator ''-'')) = ''NaN''
   \<and> display (step (run [Digit CHR ''6'', Operator ''/'', Digit CHR ''0'', Equals,
        Operator ''+''] initial) Equals) = ''NaN''"
  by (simp add: run_eval fadd_NaN del: fadd.simps fmul.simps number_to_string.simps(3))

text \<open>
  C3, amended. From any state whose display is \<^verbatim>\<open>Error\<close>: a digit key shows that digit
  (after the error text, if the state was not waiting for a fresh entry), clear shows
  \<^verbatim>\<open>0\<close> and backspace shows \<^verbatim>\<open>Erro\<close>, so these three always move the display off the
  error text; an operator key and equals leave \<^verbatim>\<open>Error\<close> on the display when no
  computation is pending, as right after the error, and show \<^verbatim>\<open>NaN\<close> when one is.
\<close>

theorem leaving_Error:
  "display s = ''Error'' \<Longrightarrow>
     display (step s (Digit d)) = (if waitingForNewValue s then [d] else ''Error'' @ [d])
     \<and> display (step s (Digit d)) \<noteq> ''Error''
     \<and> display (step s Clear) = ''0''
     \<and> display (step s Backspace) = ''Erro''
     \<and> display (step s (Operator nxt)) = (if computation_pending s then ''NaN'' else ''Error'')
     \<and> display (step s Equals) = (if computation_pending s then ''NaN'' else ''Error'')"
  by (auto simp add: inputNumber_def clearAll_def backspace_def inputOperation_def
        performCalculation_def computation_pending_def parseFloat_Error calculate_NaN
        String_of_def Let_def split: option.split)

theorem leaving_Error_witness:
  "display (run [Digit CHR ''6'', Operator ''/'', Digit CHR ''0'', Equals] initial) = ''Error''
   \<and> \<not> computation_pending
         (run [Digit CHR ''6'', Operator ''/'', Digit CHR ''0'', Equals] initial)
   \<and> display (step (run [Digit CHR ''6'', Operator ''/'', Digit CHR ''0'', Equals] initial)
        (Digit CHR ''7'')) = ''7''
   \<and> display (step (run [Digit CHR ''6'', Operator ''/'', Digit CHR ''0'', Equals] initial)
        Clear) = ''0''
   \<and> display (step (run [Digit CHR ''6'', Operator ''/'', Digit CHR ''0'', Equals] initial)
        Backspace) = ''Erro''
   \<and> display (step (run [Digit CHR ''6'', Operator ''/'', Digit CHR ''0'', Equals] initial)
        (Operator ''+'')) = ''Error''
   \<and> display (step (run [Digit CHR ''6'', Operator ''/'', Digit CHR ''0'', Equals] initial)
        Equals) = ''Error''"
  using leaving_Error
    [where s = "run [Digit CHR ''6'', Operator ''/'', Digit CHR ''0'', Equals] initial"
       and d = "CHR ''7''" and nxt = "''+''"]
  by (simp add: run_eval computation_pending_def
        del: fadd.simps fmul.simps number_to_string.simps)

section \<open>The operand after an error\<close>

text \<open>
  C10, as the spec states it, fails in its last part: the computation with zero in place
  of \<open>NaN\<close> can itself be a division by a zero, and then the error state is entered
  again. After \<^verbatim>\<open>6 / 0 =\<close> the key \<^verbatim>\<open>/\<close> makes \<open>NaN\<close> the pending operand, and the keys
  \<^verbatim>\<open>0 +\<close> then compute \<open>calculate zero zero ''/''\<close> and show \<^verbatim>\<open>Error\<close>.
\<close>

theorem Error_again_by_zero_divisor:
  "display (run [Digit CHR ''6'', Operator ''/'', Digit CHR ''0'', Equals] initial) = ''Error''
   \<and> previousValue (run [Digit CHR ''6'', Operator ''/'', Digit CHR ''0'', Equals,
        Operator ''/''] initial) = Some NaN
   \<and> run [Digit CHR ''6'', Operator ''/'', Digit CHR ''0'', Equals, Operator ''/'',
        Digit CHR ''0'', Operator ''+''] initial =
        \<lparr>display = ''Error'', previousValue = None, operation = None,
         waitingForNewValue = True\<rparr>"
  by (simp add: run_eval del: fadd.simps fmul.simps number_to_string.simps)

text \<open>
  C10, amended. In every state the keys can reach whose display is \<^verbatim>\<open>Error\<close>, an
  operator key makes \<open>NaN\<close> the pending operand. With \<open>NaN\<close> as pending operand and an
  operator pending, the next operator key computes with zero in its place: the next state
  is the one that a pending operand zero gives, and its display is the text of
  \<open>calculate zero\<close> of the displayed number. The display is \<^verbatim>\<open>Error\<close> again exactly when
  that computation is a division by a zero, and never because of the \<open>NaN\<close>. The keys
  \<^verbatim>\<open>6 / 0 = + 5 +\<close> show \<^verbatim>\<open>5\<close>.
\<close>

theorem NaN_operand_counts_as_zero:
  "(list_all key as \<and> display (run as initial) = ''Error'' \<longrightarrow>
      previousValue (step (run as initial) (Operator nxt)) = Some NaN)
   \<and> (previousValue s = Some NaN \<and> operation s = Some op \<and> op \<noteq> [] \<longrightarrow>
        inputOperation nxt s = inputOperation nxt (s\<lparr>previousValue := Some zero\<rparr>)
        \<and> display (inputOperation nxt s)
            = String_of (calculate zero (parseFloat (display s)) op)
        \<and> (display (inputOperation nxt s) = ''Error''
            \<longleftrightarrow> op = ''/'' \<and> is_zero (parseFloat (display s))))
   \<and> display (run [Digit CHR ''6'', Operator ''/'', Digit CHR ''0'', Equals, Operator ''+'',
                    Digit CHR ''5'', Operator ''+''] initial) = ''5''"
proof (intro conjI impI)
  assume h: "list_all key as \<and> display (run as initial) = ''Error''"
  then have "operand_has_operator (run as initial)"
    by (simp add: reachable_operand_has_operator)
  with h show "previousValue (step (run as initial) (Operator nxt)) = Some NaN"
    by (auto simp add: inputOperation_def operand_has_operator_def parseFloat_Error
          calculate_NaN Let_def split: option.split)
next
  assume h: "previousValue s = Some NaN \<and> operation s = Some op \<and> op \<noteq> []"
  then show "inputOperation nxt s = inputOperation nxt (s\<lparr>previousValue := Some zero\<rparr>)"
    by (simp add: inputOperation_def error_state_def zero_def Let_def)
  from h show d: "display (inputOperation nxt s)
      = String_of (calculate zero (parseFloat (display s)) op)"
    by (simp add: inputOperation_def error_state_def String_of_def Let_def)
  show "display (inputOperation nxt s) = ''Error''
      \<longleftrightarrow> op = ''/'' \<and> is_zero (parseFloat (display s))"
  proof
    assume "display (inputOperation nxt s) = ''Error''"
    with d have "String_of (calculate zero (parseFloat (display s)) op) = ''Error''"
      by simp
    with String_of_calculate_not_Error [of zero "parseFloat (display s)" op]
    have "calculate zero (parseFloat (display s)) op = Text ''Error''"
      by blast
    then show "op = ''/'' \<and> is_zero (parseFloat (display s))"
      by (simp add: calculate_Error_iff)
  next
    assume "op = ''/'' \<and> is_zero (parseFloat (display s))"
    then have "calculate zero (parseFloat (display s)) op = Text ''Error''"
      by (simp add: calculate_Error_iff)
    with d show "display (inputOperation nxt s) = ''Error''"
      by (simp add: String_of_def)
  qed
next
  show "display (run [Digit CHR ''6'', Operator ''/'', Digit CHR ''0'', Equals, Operator ''+'',
      Digit CHR ''5'', Operator ''+''] initial) = ''5''"
    by (simp add: run_eval del: fadd.simps fmul.simps number_to_string.simps)
qed

theorem NaN_operand_counts_as_zero_witness:
  "list_all key [Digit CHR ''6'', Operator ''/'', Digit CHR ''0'', Equals]
   \<and> display (run [Digit CHR ''6'', Operator ''/'', Digit CHR ''0'', Equals] initial) = ''Error''
   \<and> previousValue (step (run [Digit CHR ''6'', Operator ''/'', Digit CHR ''0'', Equals] initial)
        (Operator ''+'')) = Some NaN
   \<and> previousValue (run [Digit CHR ''6'', Operator ''/'', Digit CHR ''0'', Equals,
        Operator ''+'', Digit CHR ''5''] initial) = Some NaN
   \<and> operation (run [Digit CHR ''6'', Operator ''/'', Digit CHR ''0'', Equals,
        Operator ''+'', Digit CHR ''5''] initial) = Some ''+''
   \<and> display (inputOperation ''-'' (run [Digit CHR ''6'', Operator ''/'', Digit CHR ''0'',
        Equals, Operator ''+'', Digit CHR ''5''] initial)) = ''5''
   \<and> display (inputOperation ''-'' (run [Digit CHR ''6'', Operator ''/'', Digit CHR ''0'',
        Equals, Operator ''+'', Digit CHR ''5''] initial)) \<noteq> ''Error''"
  using NaN_operand_counts_as_zero
    [where as = "[Digit CHR ''6'', Operator ''/'', Digit CHR ''0'', Equals]"
       and nxt = "''+''"
       and s = "run [Digit CHR ''6'', Operator ''/'', Digit CHR ''0'', Equals,
                     Operator ''+'', Digit CHR ''5''] initial"
       and op = "''+''"]
    NaN_operand_counts_as_zero
    [where as = "[Digit CHR ''6'', Operator ''/'', Digit CHR ''0'', Equals]"
       and nxt = "''-''"
       and s = "run [Digit CHR ''6'', Operator ''/'', Digit CHR ''0'', Equals,
                     Operator ''+'', Digit CHR ''5''] initial"
       and op = "''+''"]
  by (simp add: run_eval digit_key_def operator_key_def
        del: fadd.simps fmul.simps number_to_string.simps)

end
